theory Spec2Isabelle
  imports Main
begin

section \<open>JavaScript values\<close>

text \<open>
  The two Netlify functions \<^verbatim>\<open>netlify/functions/feedback/index.ts\<close> and
  \<^verbatim>\<open>netlify/functions/send-notification/index.ts\<close> read JSON bodies, talk to a store
  and issue HTTP requests. A parsed body is a \<open>json\<close> value; a property read is a
  \<open>json option\<close>, where \<open>None\<close> is JavaScript's \<^verbatim>\<open>undefined\<close>. Strings are lists of
  code units below 256. Of a number the handlers only ever test whether it is zero, so
  numbers are integers.
\<close>

datatype json =
    JNull
  | JBool bool
  | JNum int
  | JStr string
  | JArr "json list"
  | JObj "(string \<times> json) list"

text \<open>JavaScript truthiness, as used by \<^verbatim>\<open>!x\<close>, \<^verbatim>\<open>x || d\<close> and \<^verbatim>\<open>if (x)\<close>.\<close>

fun truthy :: "json option \<Rightarrow> bool" where
  "truthy None = False"
| "truthy (Some JNull) = False"
| "truthy (Some (JBool b)) = b"
| "truthy (Some (JNum n)) = (n \<noteq> 0)"
| "truthy (Some (JStr s)) = (s \<noteq> [])"
| "truthy (Some (JArr xs)) = True"
| "truthy (Some (JObj kvs)) = True"

text \<open>\<^verbatim>\<open>x || d\<close> with a default \<open>d\<close> that is a proper value.\<close>

definition js_or :: "json option \<Rightarrow> json \<Rightarrow> json" where
  "js_or x d = (case x of None \<Rightarrow> d | Some v \<Rightarrow> if truthy x then v else d)"

text \<open>\<^verbatim>\<open>a || b\<close> on strings that may be undefined: the empty string is falsy.\<close>

definition str_or :: "string option \<Rightarrow> string option \<Rightarrow> string option" where
  "str_or a b = (case a of None \<Rightarrow> b | Some s \<Rightarrow> if s \<noteq> [] then Some s else b)"

text \<open>
  Reading one of the handlers' property names from a parsed value other than \<^verbatim>\<open>null\<close>:
  an object yields its entry (\<^verbatim>\<open>JSON.parse\<close> keeps one entry per key), every other
  value yields \<^verbatim>\<open>undefined\<close>. Destructuring \<^verbatim>\<open>null\<close> throws and is handled where the
  handlers destructure.
\<close>

fun get_prop :: "json \<Rightarrow> string \<Rightarrow> json option" where
  "get_prop (JObj kvs) k = map_of kvs k"
| "get_prop v k = None"

text \<open>
  An object literal as \<^verbatim>\<open>JSON.stringify\<close> sends it: properties whose value is
  \<^verbatim>\<open>undefined\<close> are left out.
\<close>

fun obj_entries :: "(string \<times> json option) list \<Rightarrow> (string \<times> json) list" where
  "obj_entries [] = []"
| "obj_entries ((k, None) # kvs) = obj_entries kvs"
| "obj_entries ((k, Some v) # kvs) = (k, v) # obj_entries kvs"

definition obj_of :: "(string \<times> json option) list \<Rightarrow> json" where
  "obj_of kvs = JObj (obj_entries kvs)"

text \<open>\<^verbatim>\<open>String.prototype.trim\<close>: white space and line terminators below code unit 256.\<close>

definition is_js_space :: "char \<Rightarrow> bool" where
  "is_js_space c = (c \<in> set [CHR 0x09, CHR 0x0A, CHR 0x0B, CHR 0x0C, CHR 0x0D, CHR 0x20, CHR 0xA0])"

definition trim :: "string \<Rightarrow> string" where
  "trim s = rev (dropWhile is_js_space (rev (dropWhile is_js_space s)))"

datatype js_error = SyntaxError | TypeError | Thrown string

text \<open>An awaited promise either fulfils with a value or rejects with a reason.\<close>

datatype 'a settled = Fulfilled 'a | Rejected string

section \<open>The outside world\<close>

record http_event =
  httpMethod :: string
  headers :: "(string \<times> string) list"
  body :: "string option"

datatype payload = Plain string | Stringified json

record http_response =
  statusCode :: nat
  res_headers :: "(string \<times> string) list"
  res_body :: "payload option"

record form_row =
  url :: string

record feedback_row =
  created_at :: string

record setting_row =
  email :: string

record insert_result =
  error :: "string option"
  data :: "feedback_row list option"

record fetch_response =
  status :: nat
  body_text :: "string settled"

definition ok :: "fetch_response \<Rightarrow> bool" where
  "ok r = (200 \<le> status r \<and> status r \<le> 299)"

text \<open>
  Everything the handlers reach outside themselves: \<^verbatim>\<open>JSON.parse\<close> (\<open>None\<close> when it
  throws), the origin comparison \<^verbatim>\<open>isValidOrigin\<close> imported from \<^verbatim>\<open>./validation\<close>
  (a module that is not among the sources, hence a parameter), the three store queries,
  the two kinds of \<^verbatim>\<open>fetch\<close> and the environment variables that shape a request's
  address (the credentials sent in request headers are left out). A query or fetch is awaited
  and settles; an e-mail fetch, of which several run at once, also carries the logical
  time at which it settles. The e-mail fetches are told apart by the position of their
  recipient in the settings.
\<close>

record env =
  JSON_parse :: "string \<Rightarrow> json option"
  isValidOrigin :: "string \<Rightarrow> string \<Rightarrow> bool"
  select_form :: "json option \<Rightarrow> form_row option settled"
  insert_feedback :: "json \<Rightarrow> insert_result settled"
  select_settings :: "json option \<Rightarrow> setting_row list option settled"
  fetch_notification :: "string \<Rightarrow> json \<Rightarrow> fetch_response settled"
  fetch_email :: "nat \<Rightarrow> string \<Rightarrow> json \<Rightarrow> nat \<times> fetch_response settled"
  NOTIFICATION_URL :: "string option"
  URL :: "string option"

text \<open>What a run does, in program order, and what it answers.\<close>

datatype event =
    ConsoleLog string
  | ConsoleError string
  | SelectForm "json option"
  | InsertFeedback json
  | FetchNotification string json
  | NotificationSettled "fetch_response settled"
  | SelectSettings "json option"
  | FetchEmail nat string json
  | EmailSettled nat "fetch_response settled"
  | Responded http_response

record run =
  effects :: "event list"
  response :: http_response

text \<open>
  An \<^verbatim>\<open>await\<close> suspends the handler until the awaited promise has settled, so the
  effects are listed in program order, and the handler's return value reaches the
  caller after all of them.
\<close>

definition timeline :: "run \<Rightarrow> event list" where
  "timeline r = effects r @ [Responded (response r)]"

text \<open>\<^verbatim>\<open>event.body || '{}'\<close>, the text both handlers hand to \<^verbatim>\<open>JSON.parse\<close>.\<close>

definition body_or_empty :: "http_event \<Rightarrow> string" where
  "body_or_empty ev = (case body ev of None \<Rightarrow> ''{}'' | Some s \<Rightarrow> if s \<noteq> [] then s else ''{}'')"

definition json_response :: "nat \<Rightarrow> (string \<times> string) list \<Rightarrow> json \<Rightarrow> http_response" where
  "json_response code hdrs v = \<lparr>statusCode = code, res_headers = hdrs, res_body = Some (Stringified v)\<rparr>"

section \<open>The ingestion function: feedback/index.ts\<close>

definition getCorsHeaders :: "string option \<Rightarrow> (string \<times> string) list" where
  "getCorsHeaders origin =
     [(''Access-Control-Allow-Origin'',
         (case origin of None \<Rightarrow> ''*'' | Some s \<Rightarrow> if s \<noteq> [] then s else ''*'')),
      (''Access-Control-Allow-Headers'', ''Content-Type, Accept, Origin''),
      (''Access-Control-Allow-Methods'', ''POST, OPTIONS''),
      (''Access-Control-Max-Age'', ''86400''),
      (''Content-Type'', ''application/json''),
      (''Vary'', ''Origin'')]"

text \<open>
  \<^verbatim>\<open>validateFormId\<close>: one form query; a missing form, a rejected query and a rejected
  origin all yield \<^verbatim>\<open>false\<close>.
\<close>

definition validateFormId :: "env \<Rightarrow> json option \<Rightarrow> string \<Rightarrow> event list \<times> bool" where
  "validateFormId env formId origin =
     ([SelectForm formId],
      (case select_form env formId of
         Rejected e \<Rightarrow> False
       | Fulfilled None \<Rightarrow> False
       | Fulfilled (Some form) \<Rightarrow> isValidOrigin env origin (url form)))"

text \<open>
  Lines 78 to 87: \<^verbatim>\<open>if (origin)\<close> runs the validation only for a non-empty origin; with
  none the request goes on as if valid.
\<close>

definition check_origin :: "env \<Rightarrow> json option \<Rightarrow> string option \<Rightarrow> event list \<times> bool" where
  "check_origin env formId origin =
     (case origin of
        None \<Rightarrow> ([], True)
      | Some s \<Rightarrow> if s \<noteq> [] then validateFormId env formId s else ([], True))"

text \<open>
  The test \<^verbatim>\<open>!formId || !message?.trim()\<close>. The optional call yields \<^verbatim>\<open>undefined\<close> for
  a missing or \<^verbatim>\<open>null\<close> message and the trimmed text for a string; any other value has
  no \<^verbatim>\<open>trim\<close> method and the call throws.
\<close>

definition invalid_request :: "json \<Rightarrow> js_error + bool" where
  "invalid_request b =
     (if \<not> truthy (get_prop b ''formId'') then Inr True
      else (case get_prop b ''message'' of
              None \<Rightarrow> Inr True
            | Some JNull \<Rightarrow> Inr True
            | Some (JStr s) \<Rightarrow> Inr (trim s = [])
            | Some v \<Rightarrow> Inl TypeError))"

definition feedback_record :: "json \<Rightarrow> json" where
  "feedback_record b =
     obj_of
      [(''form_id'', get_prop b ''formId''),
       (''message'', get_prop b ''message''),
       (''operating_system'', Some (js_or (get_prop b ''operating_system'') (JStr ''Unknown''))),
       (''image_url'', Some (js_or (get_prop b ''image_url'') JNull)),
       (''image_name'', Some (js_or (get_prop b ''image_name'') JNull)),
       (''image_size'', Some (js_or (get_prop b ''image_size'') JNull)),
       (''screen_category'', Some (js_or (get_prop b ''screen_category'') (JStr ''Unknown''))),
       (''user_id'', Some (js_or (get_prop b ''user_id'') JNull)),
       (''user_email'', Some (js_or (get_prop b ''user_email'') JNull)),
       (''user_name'', Some (js_or (get_prop b ''user_name'') JNull))]"

definition notificationUrl :: "env \<Rightarrow> string" where
  "notificationUrl env =
     (case NOTIFICATION_URL env of
        None \<Rightarrow> ''https://userbird.co/.netlify/functions/send-notification''
      | Some u \<Rightarrow> if u \<noteq> [] then u
                  else ''https://userbird.co/.netlify/functions/send-notification'')"

definition notificationData :: "json \<Rightarrow> feedback_row \<Rightarrow> json" where
  "notificationData b row =
     obj_of
      [(''formId'', get_prop b ''formId''),
       (''message'', get_prop b ''message''),
       (''userName'', get_prop b ''user_name''),
       (''userEmail'', get_prop b ''user_email''),
       (''operating_system'', get_prop b ''operating_system''),
       (''screen_category'', get_prop b ''screen_category''),
       (''image_url'', get_prop b ''image_url''),
       (''created_at'', Some (JStr (created_at row)))]"

text \<open>
  The \<^verbatim>\<open>.then(...).catch(...)\<close> chain on the notification request: every failure
  (a rejected fetch, an unreadable body, a status outside 200..299) ends in the
  \<^verbatim>\<open>catch\<close> callback, which logs and returns.
\<close>

definition notification_callbacks :: "fetch_response settled \<Rightarrow> event list" where
  "notification_callbacks res =
     (case res of
        Rejected e \<Rightarrow> [ConsoleError ''Notification request failed:'']
      | Fulfilled r \<Rightarrow>
          (case body_text r of
             Rejected e \<Rightarrow> [ConsoleError ''Notification request failed:'']
           | Fulfilled t \<Rightarrow>
               ConsoleLog ''Notification endpoint response:'' #
               (if ok r then [] else [ConsoleError ''Notification request failed:''])))"

text \<open>
  The block guarded by \<^verbatim>\<open>if (feedbackData)\<close>. Reading \<^verbatim>\<open>feedbackData[0].created_at\<close>
  of an empty array throws. The request is awaited together with its callbacks: the
  block goes on only once the request has settled.
\<close>

definition send_notification :: "env \<Rightarrow> json \<Rightarrow> feedback_row list \<Rightarrow> event list \<times> js_error option" where
  "send_notification env b feedbackData =
     (case feedbackData of
        [] \<Rightarrow> ([ConsoleLog ''Environment check:''], Some TypeError)
      | row # rows \<Rightarrow>
          (let res = fetch_notification env (notificationUrl env) (notificationData b row)
           in ([ConsoleLog ''Environment check:'',
                ConsoleLog ''Sending notification with data:'',
                FetchNotification (notificationUrl env) (notificationData b row),
                NotificationSettled res]
               @ notification_callbacks res
               @ [ConsoleLog ''Notification request completed''],
               None)))"

definition success_response :: "(string \<times> string) list \<Rightarrow> http_response" where
  "success_response hdrs = json_response 200 hdrs (JObj [(''success'', JBool True)])"

definition error_response :: "nat \<Rightarrow> (string \<times> string) list \<Rightarrow> string \<Rightarrow> http_response" where
  "error_response code hdrs msg = json_response code hdrs (JObj [(''error'', JStr msg)])"

text \<open>Lines 93 to 177: the insert, the throw on an insert error, the notification.\<close>

definition store_feedback ::
  "env \<Rightarrow> json \<Rightarrow> (string \<times> string) list \<Rightarrow> event list \<times> (js_error + http_response)" where
  "store_feedback env b hdrs =
     (case insert_feedback env (feedback_record b) of
        Rejected e \<Rightarrow> ([InsertFeedback (feedback_record b)], Inl (Thrown e))
      | Fulfilled res \<Rightarrow>
          (case error res of
             Some e \<Rightarrow> ([InsertFeedback (feedback_record b)], Inl (Thrown e))
           | None \<Rightarrow>
               (case data res of
                  None \<Rightarrow> ([InsertFeedback (feedback_record b)], Inr (success_response hdrs))
                | Some feedbackData \<Rightarrow>
                    (case send_notification env b feedbackData of
                       (fx, Some e) \<Rightarrow> (InsertFeedback (feedback_record b) # fx, Inl e)
                     | (fx, None) \<Rightarrow>
                         (InsertFeedback (feedback_record b) # fx,
                          Inr (success_response hdrs))))))"

text \<open>Lines 69 to 177: the body has been parsed and destructured.\<close>

definition handle_submission ::
  "env \<Rightarrow> json \<Rightarrow> string option \<Rightarrow> (string \<times> string) list
     \<Rightarrow> event list \<times> (js_error + http_response)" where
  "handle_submission env b origin hdrs =
     (case invalid_request b of
        Inl e \<Rightarrow> ([], Inl e)
      | Inr True \<Rightarrow> ([], Inr (error_response 400 hdrs ''Invalid request data''))
      | Inr False \<Rightarrow>
          (case check_origin env (get_prop b ''formId'') origin of
             (fx, isValid) \<Rightarrow>
               if \<not> isValid then (fx, Inr (error_response 403 hdrs ''Origin not allowed''))
               else (case store_feedback env b hdrs of (fx', r) \<Rightarrow> (fx @ fx', r))))"

text \<open>The \<^verbatim>\<open>try\<close> block of the handler; \<open>Inl\<close> is what its \<^verbatim>\<open>catch\<close> receives.\<close>

definition feedback_try ::
  "env \<Rightarrow> http_event \<Rightarrow> string option \<Rightarrow> (string \<times> string) list
     \<Rightarrow> event list \<times> (js_error + http_response)" where
  "feedback_try env ev origin hdrs =
     (if httpMethod ev \<noteq> ''POST'' then ([], Inr (error_response 405 hdrs ''Method not allowed''))
      else
        (case JSON_parse env (body_or_empty ev) of
           None \<Rightarrow> ([], Inl SyntaxError)
         | Some JNull \<Rightarrow> ([], Inl TypeError)
         | Some b \<Rightarrow> handle_submission env b origin hdrs))"

definition request_origin :: "http_event \<Rightarrow> string option" where
  "request_origin ev = str_or (map_of (headers ev) ''origin'') (map_of (headers ev) ''Origin'')"

definition feedback_handler :: "env \<Rightarrow> http_event \<Rightarrow> run" where
  "feedback_handler env ev =
     (let origin = request_origin ev; hdrs = getCorsHeaders origin
      in if httpMethod ev = ''OPTIONS''
         then \<lparr>effects = [], response = \<lparr>statusCode = 204, res_headers = hdrs, res_body = None\<rparr>\<rparr>
         else (case feedback_try env ev origin hdrs of
                 (fx, Inr r) \<Rightarrow> \<lparr>effects = fx, response = r\<rparr>
               | (fx, Inl e) \<Rightarrow>
                   \<lparr>effects = fx @ [ConsoleError ''Error:''],
                    response = error_response 500 hdrs ''Internal server error''\<rparr>))"

section \<open>The dispatch function: send-notification/index.ts\<close>

definition email_url :: "env \<Rightarrow> string" where
  "email_url env =
     (case URL env of None \<Rightarrow> ''undefined'' | Some u \<Rightarrow> u)
     @ ''/.netlify/functions/emails/feedback-notification''"

definition email_body :: "form_row \<Rightarrow> json \<Rightarrow> setting_row \<Rightarrow> json" where
  "email_body form p s =
     obj_of
      [(''from'', Some (JStr ''notifications@userbird.co'')),
       (''to'', Some (JStr (email s))),
       (''subject'', Some (JStr (''New feedback received for '' @ url form))),
       (''parameters'',
          Some (obj_of
            [(''formUrl'', Some (JStr (url form))),
             (''formId'', get_prop p ''formId''),
             (''message'', get_prop p ''message''),
             (''userName'', get_prop p ''userName''),
             (''userEmail'', get_prop p ''userEmail''),
             (''hasUserInfo'',
                Some (JBool (truthy (get_prop p ''userName'') \<or> truthy (get_prop p ''userEmail''))))]))]"

text \<open>
  \<^verbatim>\<open>settings.map(...)\<close>: the callback runs for every recipient in turn, and each call
  issues its request at once. \<open>email_requests\<close> is what the callbacks do,
  \<open>emailPromises\<close> the promises they return, each with its position.
\<close>

definition email_requests :: "env \<Rightarrow> form_row \<Rightarrow> json \<Rightarrow> setting_row list \<Rightarrow> event list" where
  "email_requests env form p settings =
     concat (map (\<lambda>(i, s). [ConsoleLog ''Sending email to:'',
                             FetchEmail i (email_url env) (email_body form p s)])
                 (enumerate 0 settings))"

definition emailPromises ::
  "env \<Rightarrow> form_row \<Rightarrow> json \<Rightarrow> setting_row list \<Rightarrow> (nat \<times> nat \<times> fetch_response settled) list" where
  "emailPromises env form p settings =
     map (\<lambda>(i, s). (i, fetch_email env i (email_url env) (email_body form p s)))
         (enumerate 0 settings)"

text \<open>
  \<^verbatim>\<open>await Promise.all(...)\<close>: the promises settle in the order of their times (issue
  order among equal times). The wait ends with the first rejection, or else once all
  have fulfilled; what settles later is not seen by the handler.
\<close>

fun await_all :: "(nat \<times> fetch_response settled) list \<Rightarrow> event list \<times> string option" where
  "await_all [] = ([], None)"
| "await_all ((i, Fulfilled r) # rest) =
     (case await_all rest of (fx, e) \<Rightarrow> (EmailSettled i (Fulfilled r) # fx, e))"
| "await_all ((i, Rejected e) # rest) = ([EmailSettled i (Rejected e)], Some e)"

definition settle_order ::
  "(nat \<times> nat \<times> fetch_response settled) list \<Rightarrow> (nat \<times> fetch_response settled) list" where
  "settle_order ps = map (\<lambda>(i, t, res). (i, res)) (sort_key (\<lambda>(i, t, res). t) ps)"

definition Promise_all :: "(nat \<times> nat \<times> fetch_response settled) list \<Rightarrow> event list \<times> string option" where
  "Promise_all ps = await_all (settle_order ps)"

definition plain_response :: "nat \<Rightarrow> json \<Rightarrow> http_response" where
  "plain_response code v = json_response code [] v"

text \<open>Lines 65 to 95: issue every request, then wait.\<close>

definition send_emails ::
  "env \<Rightarrow> form_row \<Rightarrow> json \<Rightarrow> setting_row list \<Rightarrow> event list \<times> (js_error + http_response)" where
  "send_emails env form p settings =
     (case Promise_all (emailPromises env form p settings) of
        (fx, Some e) \<Rightarrow> (email_requests env form p settings @ fx, Inl (Thrown e))
      | (fx, None) \<Rightarrow>
          (email_requests env form p settings @ fx
             @ [ConsoleLog ''All notification emails sent successfully''],
           Inr (plain_response 200 (JObj [(''success'', JBool True)]))))"

text \<open>Lines 47 to 95, after the form has been found.\<close>

definition notify_recipients ::
  "env \<Rightarrow> form_row \<Rightarrow> json \<Rightarrow> event list \<times> (js_error + http_response)" where
  "notify_recipients env form p =
     (case select_settings env (get_prop p ''formId'') of
        Rejected e \<Rightarrow> ([SelectSettings (get_prop p ''formId'')], Inl (Thrown e))
      | Fulfilled settings \<Rightarrow>
          (case (case settings of None \<Rightarrow> [] | Some rows \<Rightarrow> rows) of
             [] \<Rightarrow>
               ([SelectSettings (get_prop p ''formId''),
                 ConsoleLog ''Notification settings found:'',
                 ConsoleLog ''No notification settings found for form:''],
                Inr (plain_response 200 (JObj [(''message'', JStr ''No notification settings found'')])))
           | s # ss \<Rightarrow>
               (case send_emails env form p (s # ss) of
                  (fx, r) \<Rightarrow>
                    ([SelectSettings (get_prop p ''formId''),
                      ConsoleLog ''Notification settings found:''] @ fx, r))))"

text \<open>Lines 25 to 95: the payload has been parsed and destructured.\<close>

definition dispatch :: "env \<Rightarrow> json \<Rightarrow> event list \<times> (js_error + http_response)" where
  "dispatch env p =
     (case select_form env (get_prop p ''formId'') of
        Rejected e \<Rightarrow>
          ([ConsoleLog ''Processing notification request:'', SelectForm (get_prop p ''formId'')],
           Inl (Thrown e))
      | Fulfilled None \<Rightarrow>
          ([ConsoleLog ''Processing notification request:'', SelectForm (get_prop p ''formId''),
            ConsoleLog ''Form not found:''],
           Inr (plain_response 404 (JObj [(''error'', JStr ''Form not found'')])))
      | Fulfilled (Some form) \<Rightarrow>
          (case notify_recipients env form p of
             (fx, r) \<Rightarrow>
               ([ConsoleLog ''Processing notification request:'',
                 SelectForm (get_prop p ''formId'')] @ fx, r)))"

definition notification_try :: "env \<Rightarrow> http_event \<Rightarrow> event list \<times> (js_error + http_response)" where
  "notification_try env ev =
     (case JSON_parse env (body_or_empty ev) of
        None \<Rightarrow> ([], Inl SyntaxError)
      | Some JNull \<Rightarrow> ([], Inl TypeError)
      | Some p \<Rightarrow> dispatch env p)"

definition send_notification_handler :: "env \<Rightarrow> http_event \<Rightarrow> run" where
  "send_notification_handler env ev =
     (if httpMethod ev \<noteq> ''POST''
      then \<lparr>effects = [],
            response = \<lparr>statusCode = 405, res_headers = [], res_body = Some (Plain ''Method Not Allowed'')\<rparr>\<rparr>
      else (case notification_try env ev of
              (fx, Inr r) \<Rightarrow> \<lparr>effects = fx, response = r\<rparr>
            | (fx, Inl e) \<Rightarrow>
                \<lparr>effects = fx @ [ConsoleError ''Error sending notification:''],
                 response = plain_response 500 (JObj [(''error'', JStr ''Failed to send notification'')])\<rparr>))"

section \<open>Reading a run\<close>

fun inserted :: "event list \<Rightarrow> json list" where
  "inserted [] = []"
| "inserted (InsertFeedback r # fx) = r # inserted fx"
| "inserted (e # fx) = inserted fx"

fun form_queries :: "event list \<Rightarrow> json option list" where
  "form_queries [] = []"
| "form_queries (SelectForm i # fx) = i # form_queries fx"
| "form_queries (e # fx) = form_queries fx"

fun notifications :: "event list \<Rightarrow> (string \<times> json) list" where
  "notifications [] = []"
| "notifications (FetchNotification u d # fx) = (u, d) # notifications fx"
| "notifications (e # fx) = notifications fx"

fun settlements :: "event list \<Rightarrow> fetch_response settled list" where
  "settlements [] = []"
| "settlements (NotificationSettled res # fx) = res # settlements fx"
| "settlements (e # fx) = settlements fx"

fun fetched_emails :: "event list \<Rightarrow> nat list" where
  "fetched_emails [] = []"
| "fetched_emails (FetchEmail i u d # fx) = i # fetched_emails fx"
| "fetched_emails (e # fx) = fetched_emails fx"

fun settled_emails :: "event list \<Rightarrow> nat list" where
  "settled_emails [] = []"
| "settled_emails (EmailSettled i res # fx) = i # settled_emails fx"
| "settled_emails (e # fx) = settled_emails fx"

fun fulfilled :: "'a settled \<Rightarrow> bool" where
  "fulfilled (Fulfilled v) = True"
| "fulfilled (Rejected e) = False"

section \<open>The scenario of the specification\<close>

text \<open>
  The form \<open>f1\<close> is registered for \<^verbatim>\<open>https://example.com\<close> and has three enabled
  recipients. The scenario's parser knows the bodies used below and rejects every other
  text, the empty one included; its origin comparison is equality. The store inserts
  and returns the row; the notification endpoint answers 200; of the three e-mail
  requests the first is rejected at time 1 and the others fulfil at times 2 and 3.
\<close>

definition scenario_text :: string where
  \<open>scenario_text = ''{"formId":"f1","message":"Broken button"}''\<close>

definition scenario_body :: json where
  "scenario_body = JObj [(''formId'', JStr ''f1''), (''message'', JStr ''Broken button'')]"

definition blank_text :: string where
  \<open>blank_text = ''{"formId":"f1","message":"   "}''\<close>

definition blank_body :: json where
  "blank_body = JObj [(''formId'', JStr ''f1''), (''message'', JStr ''   '')]"

definition scenario_parse :: "string \<Rightarrow> json option" where
  "scenario_parse s =
     (if s = ''{}'' then Some (JObj [])
      else if s = scenario_text then Some scenario_body
      else if s = blank_text then Some blank_body
      else None)"

definition scenario_form :: form_row where
  "scenario_form = \<lparr>url = ''https://example.com''\<rparr>"

definition scenario_row :: feedback_row where
  "scenario_row = \<lparr>created_at = ''2024-01-01T00:00:00Z''\<rparr>"

definition scenario_settings :: "setting_row list" where
  "scenario_settings = [\<lparr>email = ''a@example.com''\<rparr>, \<lparr>email = ''b@example.com''\<rparr>, \<lparr>email = ''c@example.com''\<rparr>]"

definition scenario_answer :: fetch_response where
  "scenario_answer = \<lparr>status = 200, body_text = Fulfilled ''done''\<rparr>"

definition scenario_env :: env where
  "scenario_env =
     \<lparr>JSON_parse = scenario_parse,
      isValidOrigin = (\<lambda>origin registered. origin = registered),
      select_form = (\<lambda>formId. Fulfilled (if formId = Some (JStr ''f1'') then Some scenario_form else None)),
      insert_feedback = (\<lambda>r. Fulfilled \<lparr>error = None, data = Some [scenario_row]\<rparr>),
      select_settings = (\<lambda>formId. Fulfilled (if formId = Some (JStr ''f1'') then Some scenario_settings else Some [])),
      fetch_notification = (\<lambda>u d. Fulfilled scenario_answer),
      fetch_email = (\<lambda>i u d. if i = 0 then (1, Rejected ''connection reset'') else (Suc i, Fulfilled scenario_answer)),
      NOTIFICATION_URL = None,
      URL = Some ''https://userbird.co''\<rparr>"

definition post :: "(string \<times> string) list \<Rightarrow> string \<Rightarrow> http_event" where
  "post hdrs txt = \<lparr>httpMethod = ''POST'', headers = hdrs, body = Some txt\<rparr>"

text \<open>The same store, except that the insert reports an error.\<close>

definition failing_insert_env :: env where
  "failing_insert_env =
     scenario_env\<lparr>insert_feedback := (\<lambda>r. Fulfilled \<lparr>error = Some ''insert failed'', data = None\<rparr>)\<rparr>"

text \<open>The same store, except that the insert returns no rows.\<close>

definition silent_insert_env :: env where
  "silent_insert_env =
     scenario_env\<lparr>insert_feedback := (\<lambda>r. Fulfilled \<lparr>error = None, data = None\<rparr>)\<rparr>"

text \<open>A form without enabled recipients.\<close>

definition no_recipients_env :: env where
  "no_recipients_env = scenario_env\<lparr>select_settings := (\<lambda>formId. Fulfilled (Some []))\<rparr>"

section \<open>Unfolding the handlers\<close>

lemmas scenario_simps =
  post_def scenario_env_def scenario_parse_def body_or_empty_def scenario_text_def blank_text_def
  scenario_body_def blank_body_def scenario_form_def scenario_row_def scenario_answer_def
  trim_def is_js_space_def request_origin_def str_or_def failing_insert_env_def
  silent_insert_env_def no_recipients_env_def

lemma feedback_handler_post:
  assumes "httpMethod ev = ''POST''"
  shows "feedback_handler env ev =
     (case feedback_try env ev (request_origin ev) (getCorsHeaders (request_origin ev)) of
        (fx, Inr r) \<Rightarrow> \<lparr>effects = fx, response = r\<rparr>
      | (fx, Inl e) \<Rightarrow>
          \<lparr>effects = fx @ [ConsoleError ''Error:''],
           response = error_response 500 (getCorsHeaders (request_origin ev)) ''Internal server error''\<rparr>)"
  using assms by (simp add: feedback_handler_def Let_def)

lemma feedback_try_parsed:
  assumes "httpMethod ev = ''POST''"
    and "JSON_parse env (body_or_empty ev) = Some b" and "b \<noteq> JNull"
  shows "feedback_try env ev origin hdrs = handle_submission env b origin hdrs"
  using assms by (cases b; clarsimp simp: feedback_try_def)

lemma notification_try_parsed:
  assumes "JSON_parse env (body_or_empty ev) = Some p" and "p \<noteq> JNull"
  shows "notification_try env ev = dispatch env p"
  using assms by (cases p; clarsimp simp: notification_try_def)

lemma form_queries_append: "form_queries (xs @ ys) = form_queries xs @ form_queries ys"
  by (induction xs rule: form_queries.induct) simp_all

lemma inserted_append: "inserted (xs @ ys) = inserted xs @ inserted ys"
  by (induction xs rule: inserted.induct) simp_all

lemma notifications_append: "notifications (xs @ ys) = notifications xs @ notifications ys"
  by (induction xs rule: notifications.induct) simp_all

lemma notification_callbacks_quiet:
  "form_queries (notification_callbacks res) = []"
  "inserted (notification_callbacks res) = []"
  "notifications (notification_callbacks res) = []"
  by (simp_all add: notification_callbacks_def split: settled.splits)

lemma send_notification_quiet:
  "form_queries (fst (send_notification env b rows)) = []"
  "inserted (fst (send_notification env b rows)) = []"
  by (simp_all add: send_notification_def Let_def form_queries_append inserted_append
        notification_callbacks_quiet split: list.splits)

lemma store_feedback_effects:
  "form_queries (fst (store_feedback env b hdrs)) = []"
  "inserted (fst (store_feedback env b hdrs)) = [feedback_record b]"
  by (simp_all add: store_feedback_def split_beta send_notification_quiet
        split: settled.splits option.splits)

lemma valid_request:
  assumes "truthy (get_prop b ''formId'')" and "get_prop b ''message'' = Some (JStr m)"
    and "trim m \<noteq> []"
  shows "invalid_request b = Inr False"
  using assms by (simp add: invalid_request_def)

lemma valid_request_not_null: "invalid_request b = Inr False \<Longrightarrow> b \<noteq> JNull"
  by (auto simp: invalid_request_def)

lemma handle_submission_valid:
  assumes "invalid_request b = Inr False"
  shows "handle_submission env b origin hdrs =
     (if snd (check_origin env (get_prop b ''formId'') origin)
      then (fst (check_origin env (get_prop b ''formId'') origin) @ fst (store_feedback env b hdrs),
            snd (store_feedback env b hdrs))
      else (fst (check_origin env (get_prop b ''formId'') origin),
            Inr (error_response 403 hdrs ''Origin not allowed'')))"
  using assms by (simp add: handle_submission_def split_beta)

lemma check_origin_none:
  assumes "origin = None \<or> origin = Some []"
  shows "check_origin env formId origin = ([], True)"
  using assms by (auto simp: check_origin_def)

lemma check_origin_declared:
  assumes "origin \<noteq> []"
  shows "check_origin env formId (Some origin) = validateFormId env formId origin"
  using assms by (simp add: check_origin_def)

lemma feedback_try_form_queries:
  assumes "origin = None \<or> origin = Some []"
  shows "form_queries (fst (feedback_try env ev origin hdrs)) = []"
proof (cases "httpMethod ev = ''POST''")
  case False
  then show ?thesis by (simp add: feedback_try_def)
next
  case post: True
  show ?thesis
  proof (cases "JSON_parse env (body_or_empty ev)")
    case None
    with post show ?thesis by (simp add: feedback_try_def)
  next
    case (Some b)
    show ?thesis
    proof (cases "b = JNull")
      case True
      with post Some show ?thesis by (simp add: feedback_try_def)
    next
      case False
      have "form_queries (fst (handle_submission env b origin hdrs)) = []"
        by (simp add: handle_submission_def check_origin_none [OF assms] store_feedback_effects
            split: sum.splits bool.splits)
      with post Some False show ?thesis
        by (simp add: feedback_try_parsed)
    qed
  qed
qed

lemma feedback_handler_valid:
  assumes "httpMethod ev = ''POST''"
    and "JSON_parse env (body_or_empty ev) = Some b"
    and "invalid_request b = Inr False"
  shows "feedback_try env ev (request_origin ev) hdrs =
     (if snd (check_origin env (get_prop b ''formId'') (request_origin ev))
      then (fst (check_origin env (get_prop b ''formId'') (request_origin ev))
              @ fst (store_feedback env b hdrs),
            snd (store_feedback env b hdrs))
      else (fst (check_origin env (get_prop b ''formId'') (request_origin ev)),
            Inr (error_response 403 hdrs ''Origin not allowed'')))"
  using assms
  by (simp add: feedback_try_parsed [OF assms(1,2) valid_request_not_null [OF assms(3)]]
      handle_submission_valid)

lemma store_feedback_succeeds:
  assumes "insert_feedback env (feedback_record b) = Fulfilled res"
    and "error res = None" and "data res \<noteq> Some []"
  shows "snd (store_feedback env b hdrs) = Inr (success_response hdrs)"
proof (cases "data res")
  case None
  with assms show ?thesis by (simp add: store_feedback_def)
next
  case (Some rows)
  with assms(3) obtain row rest where "rows = row # rest"
    by (cases rows) auto
  with assms Some show ?thesis
    by (simp add: store_feedback_def send_notification_def Let_def)
qed

lemma feedback_record_form_id:
  "get_prop (feedback_record b) ''form_id'' = get_prop b ''formId''"
  by (cases "get_prop b ''formId''"; cases "get_prop b ''message''";
      simp add: feedback_record_def obj_of_def)

lemma feedback_record_sentinel:
  "get_prop (feedback_record b) ''operating_system''
     = Some (js_or (get_prop b ''operating_system'') (JStr ''Unknown''))"
  "get_prop (feedback_record b) ''screen_category''
     = Some (js_or (get_prop b ''screen_category'') (JStr ''Unknown''))"
  by (cases "get_prop b ''formId''"; cases "get_prop b ''message''";
      simp add: feedback_record_def obj_of_def)+

lemma feedback_record_optional:
  "get_prop (feedback_record b) ''image_url'' = Some (js_or (get_prop b ''image_url'') JNull)"
  "get_prop (feedback_record b) ''image_name'' = Some (js_or (get_prop b ''image_name'') JNull)"
  "get_prop (feedback_record b) ''image_size'' = Some (js_or (get_prop b ''image_size'') JNull)"
  "get_prop (feedback_record b) ''user_id'' = Some (js_or (get_prop b ''user_id'') JNull)"
  "get_prop (feedback_record b) ''user_email'' = Some (js_or (get_prop b ''user_email'') JNull)"
  "get_prop (feedback_record b) ''user_name'' = Some (js_or (get_prop b ''user_name'') JNull)"
  by (cases "get_prop b ''formId''"; cases "get_prop b ''message''";
      simp add: feedback_record_def obj_of_def)+

lemma js_or_undefined: "js_or None d = d"
  by (simp add: js_or_def)

lemma feedback_record_defaults:
  "(\<forall>k \<in> set [''operating_system'', ''screen_category''].
       get_prop b k = None \<longrightarrow> get_prop (feedback_record b) k = Some (JStr ''Unknown''))"
  "(\<forall>k \<in> set [''image_url'', ''image_name'', ''image_size'', ''user_id'', ''user_email'', ''user_name''].
       get_prop b k = None \<longrightarrow> get_prop (feedback_record b) k = Some JNull)"
  by (simp_all add: feedback_record_sentinel feedback_record_optional js_or_undefined)

lemma send_notification_fetches:
  "notifications (fst (send_notification env b rows)) \<noteq> [] \<longleftrightarrow> rows \<noteq> []"
  by (simp add: send_notification_def Let_def split: list.splits)

lemma settlements_append: "settlements (xs @ ys) = settlements xs @ settlements ys"
  by (induction xs rule: settlements.induct) simp_all

lemma notification_callbacks_settlements: "settlements (notification_callbacks res) = []"
  by (simp add: notification_callbacks_def split: settled.splits)

lemma send_notification_awaits:
  "length (settlements (fst (send_notification env b rows)))
     = length (notifications (fst (send_notification env b rows)))"
  by (simp add: send_notification_def Let_def settlements_append notifications_append
        notification_callbacks_settlements notification_callbacks_quiet split: list.splits)

lemma store_feedback_awaits:
  "length (settlements (fst (store_feedback env b hdrs)))
     = length (notifications (fst (store_feedback env b hdrs)))"
  using send_notification_awaits [of env b]
  by (simp add: store_feedback_def split_beta split: settled.splits option.splits)

lemma check_origin_awaits:
  "settlements (fst (check_origin env formId origin)) = []"
  "notifications (fst (check_origin env formId origin)) = []"
  by (simp_all add: check_origin_def validateFormId_def split: option.splits)

lemma handle_submission_awaits:
  "length (settlements (fst (handle_submission env b origin hdrs)))
     = length (notifications (fst (handle_submission env b origin hdrs)))"
  by (simp add: handle_submission_def split_beta settlements_append notifications_append
        check_origin_awaits store_feedback_awaits split: sum.splits bool.splits)

lemma feedback_try_awaits:
  "length (settlements (fst (feedback_try env ev origin hdrs)))
     = length (notifications (fst (feedback_try env ev origin hdrs)))"
  by (simp add: feedback_try_def handle_submission_awaits split: option.splits json.splits)

lemma fetched_emails_append: "fetched_emails (xs @ ys) = fetched_emails xs @ fetched_emails ys"
  by (induction xs rule: fetched_emails.induct) simp_all

lemma settled_emails_append: "settled_emails (xs @ ys) = settled_emails xs @ settled_emails ys"
  by (induction xs rule: settled_emails.induct) simp_all

lemma send_notification_handler_post:
  assumes "httpMethod ev = ''POST''"
    and "JSON_parse env (body_or_empty ev) = Some p" and "p \<noteq> JNull"
  shows "send_notification_handler env ev =
     (case dispatch env p of
        (fx, Inr r) \<Rightarrow> \<lparr>effects = fx, response = r\<rparr>
      | (fx, Inl e) \<Rightarrow>
          \<lparr>effects = fx @ [ConsoleError ''Error sending notification:''],
           response = plain_response 500 (JObj [(''error'', JStr ''Failed to send notification'')])\<rparr>)"
  using assms by (simp add: send_notification_handler_def notification_try_parsed)

lemma email_requests_from:
  "fetched_emails (concat (map (\<lambda>(i, s). [ConsoleLog l, FetchEmail i (u i s) (d i s)]) (enumerate n ss)))
     = [n..<n + length ss]"
  by (induction ss arbitrary: n) (simp_all add: upt_conv_Cons del: upt_Suc)

lemma email_requests_unsettled_from:
  "settled_emails (concat (map (\<lambda>(i, s). [ConsoleLog l, FetchEmail i (u i s) (d i s)]) (enumerate n ss))) = []"
  by (induction ss arbitrary: n) simp_all

lemma email_requests_fetched:
  "fetched_emails (email_requests env form p ss) = [0..<length ss]"
  using email_requests_from [of _ "\<lambda>i s. email_url env" "\<lambda>i s. email_body form p s" 0 ss]
  by (simp add: email_requests_def)

lemma email_requests_unsettled:
  "settled_emails (email_requests env form p ss) = []"
  using email_requests_unsettled_from [of _ "\<lambda>i s. email_url env" "\<lambda>i s. email_body form p s" 0 ss]
  by (simp add: email_requests_def)

lemma await_all_fetched: "fetched_emails (fst (await_all xs)) = []"
  by (induction xs rule: await_all.induct) (simp_all add: split_beta)

lemma await_all_settled:
  "settled_emails (fst (await_all xs))
     = map fst (takeWhile (fulfilled \<circ> snd) xs) @ map fst (take 1 (dropWhile (fulfilled \<circ> snd) xs))"
  by (induction xs rule: await_all.induct) (simp_all add: split_beta)

lemma await_all_result:
  "snd (await_all xs) = None \<longleftrightarrow> (\<forall>x \<in> set xs. fulfilled (snd x))"
  by (induction xs rule: await_all.induct) (simp_all add: split_beta)

lemma settle_order_set:
  "snd ` set (settle_order ps) = (snd \<circ> snd) ` set ps"
  by (force simp: settle_order_def)

lemma emailPromises_nth:
  "i < length ss \<Longrightarrow>
     emailPromises env form p ss ! i = (i, fetch_email env i (email_url env) (email_body form p (ss ! i)))"
  by (simp add: emailPromises_def nth_enumerate_eq)

lemma emailPromises_length: "length (emailPromises env form p ss) = length ss"
  by (simp add: emailPromises_def)

lemma all_fulfilled:
  "(\<forall>x \<in> set (settle_order (emailPromises env form p ss)). fulfilled (snd x))
     \<longleftrightarrow> (\<forall>i < length ss. fulfilled (snd (fetch_email env i (email_url env) (email_body form p (ss ! i)))))"
proof -
  have "(\<forall>x \<in> set (settle_order (emailPromises env form p ss)). fulfilled (snd x))
      \<longleftrightarrow> (\<forall>r \<in> snd ` set (settle_order (emailPromises env form p ss)). fulfilled r)"
    by blast
  also have "\<dots> \<longleftrightarrow> (\<forall>x \<in> set (emailPromises env form p ss). fulfilled (snd (snd x)))"
    by (simp add: settle_order_set)
  also have "\<dots> \<longleftrightarrow> (\<forall>i < length (emailPromises env form p ss).
                          fulfilled (snd (snd (emailPromises env form p ss ! i))))"
    by (simp add: all_set_conv_all_nth)
  also have "\<dots> \<longleftrightarrow> (\<forall>i < length ss.
       fulfilled (snd (fetch_email env i (email_url env) (email_body form p (ss ! i)))))"
    by (simp add: emailPromises_length emailPromises_nth)
  finally show ?thesis .
qed

lemma scenario_order:
  "settle_order (emailPromises scenario_env scenario_form scenario_body scenario_settings)
     = [(0, Rejected ''connection reset''), (1, Fulfilled scenario_answer), (2, Fulfilled scenario_answer)]"
  by (simp add: settle_order_def emailPromises_def scenario_env_def scenario_settings_def)

section \<open>Ingestion: field validation\<close>

text \<open>
  Claim C6. A POST whose body parses to a value with properties to read (an object, or
  any value but \<^verbatim>\<open>null\<close>) and lacks \<open>formId\<close>, or lacks \<open>message\<close>, or carries a
  message that is blank after trimming, is answered 400 with the error
  \<open>Invalid request data\<close>, and the handler does nothing else: no form query, no insert.
\<close>

theorem missing_fields_bad_request:
  assumes "httpMethod ev = ''POST''"
    and "JSON_parse env (body_or_empty ev) = Some b" and "b \<noteq> JNull"
    and "get_prop b ''formId'' = None \<or> get_prop b ''message'' = None
         \<or> (\<exists>s. get_prop b ''message'' = Some (JStr s) \<and> trim s = [])"
  shows "response (feedback_handler env ev)
           = error_response 400 (getCorsHeaders (request_origin ev)) ''Invalid request data''
         \<and> effects (feedback_handler env ev) = []"
proof -
  have "invalid_request b = Inr True"
    using assms(4) by (auto simp: invalid_request_def)
  then show ?thesis
    by (simp add: feedback_handler_post [OF assms(1)] feedback_try_parsed [OF assms(1-3)]
        handle_submission_def)
qed

theorem missing_fields_bad_request_witness:
  "response (feedback_handler scenario_env (post [(''origin'', ''https://evil.com'')] blank_text))
     = error_response 400 (getCorsHeaders (Some ''https://evil.com'')) ''Invalid request data''
   \<and> effects (feedback_handler scenario_env (post [(''origin'', ''https://evil.com'')] blank_text)) = []"
  using missing_fields_bad_request
          [of "post [(''origin'', ''https://evil.com'')] blank_text" scenario_env blank_body]
  by (simp add: scenario_simps)

text \<open>
  Claim C10, as amended. A POST whose body is a non-empty text that \<^verbatim>\<open>JSON.parse\<close>
  rejects is answered 500 with the error \<open>Internal server error\<close>, and nothing is
  inserted.
\<close>

theorem unparseable_body_internal_error:
  assumes "httpMethod ev = ''POST''"
    and "body ev = Some s" and "s \<noteq> []" and "JSON_parse env s = None"
  shows "response (feedback_handler env ev)
           = error_response 500 (getCorsHeaders (request_origin ev)) ''Internal server error''
       \<and> inserted (effects (feedback_handler env ev)) = []"
  using assms
  by (simp add: feedback_handler_post [OF assms(1)] feedback_try_def body_or_empty_def)

theorem unparseable_body_internal_error_witness:
  "response (feedback_handler scenario_env (post [] ''not json''))
     = error_response 500 (getCorsHeaders None) ''Internal server error''
   \<and> inserted (effects (feedback_handler scenario_env (post [] ''not json''))) = []"
  using unparseable_body_internal_error [of "post [] ''not json''" "''not json''" scenario_env]
  by (simp add: scenario_simps)

text \<open>
  Claim C10, as stated, fails for the empty body: the empty text is not JSON, but the
  handler parses \<^verbatim>\<open>{}\<close> in its place and answers 400, not 500.
\<close>

theorem empty_body_counterexample:
  "JSON_parse scenario_env [] = None
   \<and> statusCode (response (feedback_handler scenario_env (post [] []))) = 400"
  by (simp add: scenario_simps feedback_handler_def feedback_try_def handle_submission_def
        invalid_request_def error_response_def json_response_def Let_def)

section \<open>Ingestion: origin validation\<close>

text \<open>
  Claim C7. For a POST that declares no origin (no \<open>origin\<close> or \<open>Origin\<close> header, or an
  empty one) the handler never queries the form, whatever the body; and when the body
  carries a \<open>formId\<close> and a message that is not blank, the record is handed to the store.
\<close>

theorem no_origin_skips_validation:
  assumes "httpMethod ev = ''POST''"
    and "request_origin ev = None \<or> request_origin ev = Some []"
  shows "form_queries (effects (feedback_handler env ev)) = []
       \<and> (\<forall>b m. JSON_parse env (body_or_empty ev) = Some b \<and> truthy (get_prop b ''formId'')
                 \<and> get_prop b ''message'' = Some (JStr m) \<and> trim m \<noteq> []
              \<longrightarrow> inserted (effects (feedback_handler env ev)) = [feedback_record b])"
proof (intro conjI allI impI)
  show "form_queries (effects (feedback_handler env ev)) = []"
    using feedback_try_form_queries [OF assms(2), of env ev "getCorsHeaders (request_origin ev)"]
    by (simp add: feedback_handler_post [OF assms(1)] form_queries_append split_beta
        split: sum.splits)
next
  fix b m
  assume h: "JSON_parse env (body_or_empty ev) = Some b \<and> truthy (get_prop b ''formId'')
     \<and> get_prop b ''message'' = Some (JStr m) \<and> trim m \<noteq> []"
  then have valid: "invalid_request b = Inr False"
    by (simp add: valid_request)
  have "feedback_try env ev (request_origin ev) (getCorsHeaders (request_origin ev))
          = store_feedback env b (getCorsHeaders (request_origin ev))"
    using h valid
    by (simp add: feedback_try_parsed [OF assms(1) _ valid_request_not_null [OF valid]]
        handle_submission_valid check_origin_none [OF assms(2)])
  then show "inserted (effects (feedback_handler env ev)) = [feedback_record b]"
    using store_feedback_effects(2) [of env b "getCorsHeaders (request_origin ev)"]
    by (simp add: feedback_handler_post [OF assms(1)] inserted_append split_beta
        split: sum.splits)
qed

theorem no_origin_skips_validation_witness:
  "form_queries (effects (feedback_handler scenario_env (post [] scenario_text))) = []
   \<and> inserted (effects (feedback_handler scenario_env (post [] scenario_text)))
        = [feedback_record scenario_body]"
  using no_origin_skips_validation [of "post [] scenario_text" scenario_env]
  by (simp add: post_def scenario_env_def scenario_parse_def body_or_empty_def
        scenario_text_def scenario_body_def trim_def is_js_space_def request_origin_def str_or_def)

text \<open>
  Claim C4, as amended. For a POST with a \<open>formId\<close> and a message that is not blank,
  declaring an origin: if the store has no form of that id, or the origin comparison
  rejects the declared origin against the form's registered address, the answer is 403
  with the error \<open>Origin not allowed\<close> and nothing is inserted.
\<close>

theorem rejected_origin_forbidden:
  assumes "httpMethod ev = ''POST''"
    and "JSON_parse env (body_or_empty ev) = Some b"
    and "truthy (get_prop b ''formId'')"
    and "get_prop b ''message'' = Some (JStr m)" and "trim m \<noteq> []"
    and "request_origin ev = Some origin" and "origin \<noteq> []"
    and "select_form env (get_prop b ''formId'') = Fulfilled None
         \<or> (\<exists>form. select_form env (get_prop b ''formId'') = Fulfilled (Some form)
                    \<and> \<not> isValidOrigin env origin (url form))"
  shows "response (feedback_handler env ev)
           = error_response 403 (getCorsHeaders (request_origin ev)) ''Origin not allowed''
         \<and> inserted (effects (feedback_handler env ev)) = []"
proof -
  have chk: "check_origin env (get_prop b ''formId'') (request_origin ev)
               = ([SelectForm (get_prop b ''formId'')], False)"
    using assms(6-8) by (auto simp: check_origin_def validateFormId_def)
  show ?thesis
    by (simp add: feedback_handler_post [OF assms(1)]
        feedback_handler_valid [OF assms(1,2) valid_request [OF assms(3-5)]] chk)
qed

theorem rejected_origin_forbidden_witness:
  "response (feedback_handler scenario_env (post [(''origin'', ''https://evil.com'')] scenario_text))
     = error_response 403 (getCorsHeaders (Some ''https://evil.com'')) ''Origin not allowed''
   \<and> inserted (effects (feedback_handler scenario_env
                          (post [(''origin'', ''https://evil.com'')] scenario_text))) = []"
  using rejected_origin_forbidden
          [of "post [(''origin'', ''https://evil.com'')] scenario_text" scenario_env scenario_body
              "''Broken button''" "''https://evil.com''"]
  by (simp add: post_def scenario_env_def scenario_parse_def body_or_empty_def
        scenario_text_def scenario_body_def scenario_form_def trim_def is_js_space_def
        request_origin_def str_or_def)

text \<open>
  Claim C4, as stated, fails where the field validation answers first: a blank message
  with an origin that differs from the registered address is answered 400, not 403.
\<close>

theorem blank_message_differing_origin_counterexample:
  "request_origin (post [(''origin'', ''https://evil.com'')] blank_text) = Some ''https://evil.com''
   \<and> select_form scenario_env (get_prop blank_body ''formId'') = Fulfilled (Some scenario_form)
   \<and> \<not> isValidOrigin scenario_env ''https://evil.com'' (url scenario_form)
   \<and> statusCode (response (feedback_handler scenario_env
                              (post [(''origin'', ''https://evil.com'')] blank_text))) = 400"
  by (simp add: post_def scenario_env_def scenario_parse_def body_or_empty_def
        scenario_text_def blank_text_def blank_body_def scenario_form_def trim_def is_js_space_def
        request_origin_def str_or_def feedback_handler_def feedback_try_def handle_submission_def
        invalid_request_def error_response_def json_response_def Let_def)

section \<open>Ingestion: persistence\<close>

text \<open>
  Claim C5, as amended. For a POST with a \<open>formId\<close> and a message that is not blank,
  whose declared origin the comparison accepts for the form's registered address, and
  whose insert succeeds (no error; the returned rows, if any, hold the inserted row):
  the answer is 200 with \<open>success: true\<close>; exactly one record is handed to the store;
  its \<open>form_id\<close> is the body's \<open>formId\<close>; \<open>operating_system\<close> and \<open>screen_category\<close> are
  \<open>Unknown\<close> when the body lacks them; each other optional field the body lacks is
  \<^verbatim>\<open>null\<close>.
\<close>

theorem accepted_submission_stored:
  assumes "httpMethod ev = ''POST''"
    and "JSON_parse env (body_or_empty ev) = Some b"
    and "truthy (get_prop b ''formId'')"
    and "get_prop b ''message'' = Some (JStr m)" and "trim m \<noteq> []"
    and "request_origin ev = Some origin" and "origin \<noteq> []"
    and "select_form env (get_prop b ''formId'') = Fulfilled (Some form)"
    and "isValidOrigin env origin (url form)"
    and "insert_feedback env (feedback_record b) = Fulfilled res"
    and "error res = None" and "data res \<noteq> Some []"
  shows "response (feedback_handler env ev) = success_response (getCorsHeaders (request_origin ev))
       \<and> inserted (effects (feedback_handler env ev)) = [feedback_record b]
       \<and> get_prop (feedback_record b) ''form_id'' = get_prop b ''formId''
       \<and> (\<forall>k \<in> set [''operating_system'', ''screen_category''].
             get_prop b k = None \<longrightarrow> get_prop (feedback_record b) k = Some (JStr ''Unknown''))
       \<and> (\<forall>k \<in> set [''image_url'', ''image_name'', ''image_size'', ''user_id'', ''user_email'', ''user_name''].
             get_prop b k = None \<longrightarrow> get_prop (feedback_record b) k = Some JNull)"
proof -
  have chk: "check_origin env (get_prop b ''formId'') (request_origin ev)
               = ([SelectForm (get_prop b ''formId'')], True)"
    using assms(6-9) by (simp add: check_origin_def validateFormId_def)
  have tr: "feedback_try env ev (request_origin ev) (getCorsHeaders (request_origin ev))
          = (SelectForm (get_prop b ''formId'') # fst (store_feedback env b (getCorsHeaders (request_origin ev))),
             Inr (success_response (getCorsHeaders (request_origin ev))))"
    by (simp add: feedback_handler_valid [OF assms(1,2) valid_request [OF assms(3-5)]] chk
        store_feedback_succeeds [OF assms(10-12)])
  have "response (feedback_handler env ev) = success_response (getCorsHeaders (request_origin ev))"
    by (simp add: feedback_handler_post [OF assms(1)] tr)
  moreover have "inserted (effects (feedback_handler env ev)) = [feedback_record b]"
    by (simp add: feedback_handler_post [OF assms(1)] tr store_feedback_effects)
  ultimately show ?thesis
    using feedback_record_form_id [of b] feedback_record_defaults [of b] by blast
qed

theorem accepted_submission_stored_witness:
  "response (feedback_handler scenario_env (post [(''origin'', ''https://example.com'')] scenario_text))
     = success_response (getCorsHeaders (Some ''https://example.com''))
   \<and> inserted (effects (feedback_handler scenario_env
                          (post [(''origin'', ''https://example.com'')] scenario_text)))
        = [feedback_record scenario_body]
   \<and> get_prop (feedback_record scenario_body) ''form_id'' = Some (JStr ''f1'')
   \<and> get_prop (feedback_record scenario_body) ''operating_system'' = Some (JStr ''Unknown'')
   \<and> get_prop (feedback_record scenario_body) ''screen_category'' = Some (JStr ''Unknown'')
   \<and> get_prop (feedback_record scenario_body) ''user_email'' = Some JNull"
  using accepted_submission_stored
          [of "post [(''origin'', ''https://example.com'')] scenario_text" scenario_env scenario_body
              "''Broken button''" "''https://example.com''" scenario_form
              "\<lparr>error = None, data = Some [scenario_row]\<rparr>"]
  by (simp add: scenario_simps)

text \<open>
  Claim C5, as stated, fails when the store reports an insert error: the submission is
  valid and its origin is the registered one, yet the answer is 500.
\<close>

theorem insert_failure_counterexample:
  "invalid_request scenario_body = Inr False
   \<and> request_origin (post [(''origin'', ''https://example.com'')] scenario_text) = Some (url scenario_form)
   \<and> select_form failing_insert_env (get_prop scenario_body ''formId'') = Fulfilled (Some scenario_form)
   \<and> isValidOrigin failing_insert_env ''https://example.com'' (url scenario_form)
   \<and> statusCode (response (feedback_handler failing_insert_env
                              (post [(''origin'', ''https://example.com'')] scenario_text))) = 500"
  by (simp add: scenario_simps feedback_handler_def feedback_try_def handle_submission_def
        invalid_request_def check_origin_def validateFormId_def store_feedback_def
        error_response_def json_response_def Let_def)

section \<open>Ingestion: the notification request\<close>

text \<open>
  Claim C1 says that a request which passes validation and whose insert succeeds is
  answered 200 before the notification dispatch completes, the dispatch never delaying
  the answer. The handler's comments say so too (\<^verbatim>\<open>Send success response immediately\<close>,
  \<^verbatim>\<open>Fire and forget notification\<close>), but the handler awaits the request. In the run of
  the scenario's body without an origin, the request is issued, then it settles, then
  its outcome is logged, and only then does the answer go to the caller.
\<close>

theorem notification_awaited_before_response:
  "timeline (feedback_handler scenario_env (post [] scenario_text)) =
     [InsertFeedback (feedback_record scenario_body),
      ConsoleLog ''Environment check:'',
      ConsoleLog ''Sending notification with data:'',
      FetchNotification (notificationUrl scenario_env) (notificationData scenario_body scenario_row),
      NotificationSettled (Fulfilled scenario_answer),
      ConsoleLog ''Notification endpoint response:'',
      ConsoleLog ''Notification request completed'',
      Responded (success_response (getCorsHeaders None))]"
  by (simp add: timeline_def post_def scenario_env_def scenario_parse_def body_or_empty_def
        scenario_text_def scenario_body_def request_origin_def str_or_def
        trim_def is_js_space_def feedback_handler_def feedback_try_def handle_submission_def
        invalid_request_def check_origin_def store_feedback_def send_notification_def
        notification_callbacks_def scenario_answer_def ok_def notificationUrl_def Let_def)

text \<open>
  The same holds of every run: each notification request that the handler issues has
  settled by the time the handler answers.
\<close>

lemma every_notification_awaited:
  "length (settlements (effects (feedback_handler env ev)))
     = length (notifications (effects (feedback_handler env ev)))"
  using feedback_try_awaits [of env ev "request_origin ev" "getCorsHeaders (request_origin ev)"]
  by (simp add: feedback_handler_def Let_def split_beta settlements_append notifications_append
        split: sum.splits)

text \<open>
  Claim C2. For a POST that passes the field and origin validation and whose insert
  succeeds (no error; the returned rows, if any, hold the inserted row), the answer is
  200 with \<open>success: true\<close> whatever the notification request does: fulfil with any
  status, fail to deliver its body, or reject.
\<close>

theorem notification_outcome_not_surfaced:
  assumes "httpMethod ev = ''POST''"
    and "JSON_parse env (body_or_empty ev) = Some b"
    and "invalid_request b = Inr False"
    and "snd (check_origin env (get_prop b ''formId'') (request_origin ev))"
    and "insert_feedback env (feedback_record b) = Fulfilled res"
    and "error res = None" and "data res \<noteq> Some []"
  shows "response (feedback_handler (env\<lparr>fetch_notification := outcome\<rparr>) ev)
           = success_response (getCorsHeaders (request_origin ev))"
proof -
  let ?env = "env\<lparr>fetch_notification := outcome\<rparr>"
  have chk: "check_origin ?env (get_prop b ''formId'') (request_origin ev)
               = check_origin env (get_prop b ''formId'') (request_origin ev)"
    by (simp add: check_origin_def validateFormId_def split: option.splits settled.splits)
  have parse: "JSON_parse ?env (body_or_empty ev) = Some b"
    using assms(2) by simp
  have ins: "insert_feedback ?env (feedback_record b) = Fulfilled res"
    using assms(5) by simp
  show ?thesis
    using assms(4)
    by (simp add: feedback_handler_post [OF assms(1)]
        feedback_handler_valid [OF assms(1) parse assms(3)] chk
        store_feedback_succeeds [OF ins assms(6,7)])
qed

theorem notification_outcome_not_surfaced_witness:
  "response (feedback_handler (scenario_env\<lparr>fetch_notification := (\<lambda>u d. Rejected ''timeout'')\<rparr>)
               (post [(''origin'', ''https://example.com'')] scenario_text))
     = success_response (getCorsHeaders (Some ''https://example.com''))"
  using notification_outcome_not_surfaced
          [of "post [(''origin'', ''https://example.com'')] scenario_text" scenario_env scenario_body
              "\<lparr>error = None, data = Some [scenario_row]\<rparr>" "\<lambda>u d. Rejected ''timeout''"]
  by (simp add: scenario_simps invalid_request_def check_origin_def validateFormId_def)

text \<open>
  Claim C9. For a POST that passes validation and whose insert reports no error: a
  notification request is made only if the insert returned a row; and if the insert
  returned no row data, no notification request is made and the answer is still 200
  with \<open>success: true\<close>.
\<close>

theorem notification_needs_returned_row:
  assumes "httpMethod ev = ''POST''"
    and "JSON_parse env (body_or_empty ev) = Some b"
    and "invalid_request b = Inr False"
    and "snd (check_origin env (get_prop b ''formId'') (request_origin ev))"
    and "insert_feedback env (feedback_record b) = Fulfilled res"
    and "error res = None"
  shows "(notifications (effects (feedback_handler env ev)) \<noteq> []
            \<longrightarrow> (\<exists>row rows. data res = Some (row # rows)))
       \<and> (data res = None
            \<longrightarrow> notifications (effects (feedback_handler env ev)) = []
                \<and> response (feedback_handler env ev)
                    = success_response (getCorsHeaders (request_origin ev)))"
proof -
  have quiet: "notifications (fst (check_origin env (get_prop b ''formId'') (request_origin ev))) = []"
    by (simp add: check_origin_def validateFormId_def split: option.splits settled.splits)
  have run: "feedback_try env ev (request_origin ev) (getCorsHeaders (request_origin ev))
      = (fst (check_origin env (get_prop b ''formId'') (request_origin ev))
              @ fst (store_feedback env b (getCorsHeaders (request_origin ev))),
         snd (store_feedback env b (getCorsHeaders (request_origin ev))))"
    using assms(4) by (simp add: feedback_handler_valid [OF assms(1-3)])
  show ?thesis
  proof (cases "data res")
    case None
    then have "store_feedback env b (getCorsHeaders (request_origin ev))
        = ([InsertFeedback (feedback_record b)], Inr (success_response (getCorsHeaders (request_origin ev))))"
      using assms(5,6) by (simp add: store_feedback_def)
    with None show ?thesis
      by (simp add: feedback_handler_post [OF assms(1)] run notifications_append quiet)
  next
    case (Some rows)
    then have "notifications (fst (store_feedback env b (getCorsHeaders (request_origin ev)))) \<noteq> []
        \<longleftrightarrow> rows \<noteq> []"
      using assms(5,6) send_notification_fetches [of env b rows]
      by (simp add: store_feedback_def split_beta split: option.splits)
    with Some show ?thesis
      by (cases rows)
         (simp_all add: feedback_handler_post [OF assms(1)] run notifications_append quiet
            split_beta split: sum.splits)
  qed
qed

theorem notification_needs_returned_row_witness:
  "notifications (effects (feedback_handler silent_insert_env
                             (post [(''origin'', ''https://example.com'')] scenario_text))) = []
   \<and> response (feedback_handler silent_insert_env
                 (post [(''origin'', ''https://example.com'')] scenario_text))
        = success_response (getCorsHeaders (Some ''https://example.com''))"
  using notification_needs_returned_row
          [of "post [(''origin'', ''https://example.com'')] scenario_text" silent_insert_env
              scenario_body "\<lparr>error = None, data = None\<rparr>"]
  by (simp add: scenario_simps invalid_request_def check_origin_def validateFormId_def)

section \<open>Dispatch\<close>

text \<open>
  Claim C8. When the form exists and the query for enabled recipients returns none
  (an empty list, or no rows at all), the dispatch answers 200 with the message
  \<open>No notification settings found\<close> and issues no e-mail request.
\<close>

theorem no_recipients_no_email:
  assumes "httpMethod ev = ''POST''"
    and "JSON_parse env (body_or_empty ev) = Some p" and "p \<noteq> JNull"
    and "select_form env (get_prop p ''formId'') = Fulfilled (Some form)"
    and "select_settings env (get_prop p ''formId'') = Fulfilled None
         \<or> select_settings env (get_prop p ''formId'') = Fulfilled (Some [])"
  shows "response (send_notification_handler env ev)
           = plain_response 200 (JObj [(''message'', JStr ''No notification settings found'')])
       \<and> fetched_emails (effects (send_notification_handler env ev)) = []"
  using assms(4,5)
  by (auto simp: send_notification_handler_post [OF assms(1-3)] dispatch_def notify_recipients_def)

theorem no_recipients_no_email_witness:
  "response (send_notification_handler no_recipients_env (post [] scenario_text))
     = plain_response 200 (JObj [(''message'', JStr ''No notification settings found'')])
   \<and> fetched_emails (effects (send_notification_handler no_recipients_env (post [] scenario_text))) = []"
  using no_recipients_no_email [of "post [] scenario_text" no_recipients_env scenario_body scenario_form]
  by (simp add: scenario_simps)

text \<open>
  Claim C3, as amended. When the form exists and has enabled recipients, the dispatch
  issues one e-mail request per recipient, in order and whatever their outcomes: a
  failing request keeps no other from being attempted. A failure is not raised: the
  answer is 200 with \<open>success: true\<close> if every request fulfils and 500 with the error
  \<open>Failed to send notification\<close> otherwise. The wait is fail-fast: the handler sees
  the requests settle in their order up to and including the first rejection, and
  answers then.
\<close>

theorem one_failure_ends_wait_not_sends:
  assumes "httpMethod ev = ''POST''"
    and "JSON_parse env (body_or_empty ev) = Some p" and "p \<noteq> JNull"
    and "select_form env (get_prop p ''formId'') = Fulfilled (Some form)"
    and "select_settings env (get_prop p ''formId'') = Fulfilled (Some ss)" and "ss \<noteq> []"
  shows "fetched_emails (effects (send_notification_handler env ev)) = [0..<length ss]
       \<and> response (send_notification_handler env ev)
           = (if \<forall>i < length ss. fulfilled (snd (fetch_email env i (email_url env) (email_body form p (ss ! i))))
              then plain_response 200 (JObj [(''success'', JBool True)])
              else plain_response 500 (JObj [(''error'', JStr ''Failed to send notification'')]))
       \<and> settled_emails (effects (send_notification_handler env ev))
           = map fst (takeWhile (fulfilled \<circ> snd) (settle_order (emailPromises env form p ss)))
             @ map fst (take 1 (dropWhile (fulfilled \<circ> snd) (settle_order (emailPromises env form p ss))))"
proof -
  let ?order = "settle_order (emailPromises env form p ss)"
  let ?sent = "[ConsoleLog ''Processing notification request:'', SelectForm (get_prop p ''formId''),
                SelectSettings (get_prop p ''formId''), ConsoleLog ''Notification settings found:'']
               @ email_requests env form p ss @ fst (await_all ?order)"
  obtain s rest where ss: "ss = s # rest"
    using assms(6) by (cases ss) auto
  have d: "dispatch env p =
     (case snd (await_all ?order) of
        Some e \<Rightarrow> (?sent, Inl (Thrown e))
      | None \<Rightarrow> (?sent @ [ConsoleLog ''All notification emails sent successfully''],
                 Inr (plain_response 200 (JObj [(''success'', JBool True)]))))"
    using assms(4,5)
    by (simp add: dispatch_def notify_recipients_def send_emails_def Promise_all_def ss split_beta
        split: option.splits)
  show ?thesis
  proof (cases "snd (await_all ?order)")
    case None
    then have "\<forall>i < length ss. fulfilled (snd (fetch_email env i (email_url env) (email_body form p (ss ! i))))"
      by (simp add: await_all_result all_fulfilled)
    with None show ?thesis
      by (simp add: send_notification_handler_post [OF assms(1-3)] d fetched_emails_append
          settled_emails_append email_requests_fetched email_requests_unsettled
          await_all_fetched await_all_settled)
  next
    case (Some e)
    then have "\<not> (\<forall>i < length ss. fulfilled (snd (fetch_email env i (email_url env) (email_body form p (ss ! i)))))"
      using await_all_result [of ?order] by (simp add: all_fulfilled)
    then have "(if \<forall>i < length ss. fulfilled (snd (fetch_email env i (email_url env) (email_body form p (ss ! i))))
              then plain_response 200 (JObj [(''success'', JBool True)])
              else plain_response 500 (JObj [(''error'', JStr ''Failed to send notification'')]))
         = plain_response 500 (JObj [(''error'', JStr ''Failed to send notification'')])"
      by (rule if_not_P)
    with Some show ?thesis
      by (simp only: send_notification_handler_post [OF assms(1-3)] d)
         (simp add: fetched_emails_append
          settled_emails_append email_requests_fetched email_requests_unsettled
          await_all_fetched await_all_settled)
  qed
qed

theorem one_failure_ends_wait_not_sends_witness:
  "fetched_emails (effects (send_notification_handler scenario_env (post [] scenario_text))) = [0, 1, 2]
   \<and> response (send_notification_handler scenario_env (post [] scenario_text))
        = plain_response 500 (JObj [(''error'', JStr ''Failed to send notification'')])
   \<and> settled_emails (effects (send_notification_handler scenario_env (post [] scenario_text))) = [0]"
proof -
  have "\<not> (\<forall>i < length scenario_settings.
      fulfilled (snd (fetch_email scenario_env i (email_url scenario_env)
                        (email_body scenario_form scenario_body (scenario_settings ! i)))))"
    by (auto simp: scenario_env_def scenario_settings_def intro!: exI [of _ 0])
  note rejected = if_not_P [OF this]
  have "httpMethod (post [] scenario_text) = ''POST''"
    and "JSON_parse scenario_env (body_or_empty (post [] scenario_text)) = Some scenario_body"
    and "scenario_body \<noteq> JNull"
    and "select_form scenario_env (get_prop scenario_body ''formId'') = Fulfilled (Some scenario_form)"
    and "select_settings scenario_env (get_prop scenario_body ''formId'') = Fulfilled (Some scenario_settings)"
    and "scenario_settings \<noteq> []"
    by (simp_all add: scenario_simps scenario_settings_def)
  from one_failure_ends_wait_not_sends [OF this] show ?thesis
    by (simp only: rejected scenario_order) (simp add: scenario_settings_def numeral_2_eq_2)
qed

text \<open>
  Claim C3, as stated, fails in its reading of the wait as settle-all: with three
  recipients of which the first request is rejected first, all three requests have
  been issued, but the dispatch answers 500 when only that one has settled.
\<close>

theorem first_rejection_ends_wait_counterexample:
  "fetched_emails (effects (send_notification_handler scenario_env (post [] scenario_text))) = [0, 1, 2]
   \<and> settled_emails (effects (send_notification_handler scenario_env (post [] scenario_text))) = [0]
   \<and> statusCode (response (send_notification_handler scenario_env (post [] scenario_text))) = 500"
  by (simp add: scenario_simps scenario_settings_def send_notification_handler_def
        notification_try_def dispatch_def notify_recipients_def send_emails_def Promise_all_def
        settle_order_def emailPromises_def email_requests_def plain_response_def json_response_def)

end
